theory Spec2Isabelle
  imports Complex_Main
begin

section \<open>The SCADA dashboard (app1.py)\<close>

text \<open>
  The dashboard is a script that is re-run on every operator interaction. It talks to a
  microcontroller over a serial link (\<^verbatim>\<open>send_command\<close>), keeps the samples of the
  session in \<^verbatim>\<open>st.session_state.data\<close> and renders them. The development
  below embeds the functions of \<^verbatim>\<open>app1.py\<close> that exchange with the device, touch the
  sample store or render from it. Everything the script does beyond returning a value is
  explicit in a record of the world: the sample store, the elements rendered so far, the trace
  of operations on the serial link, and what the environment will supply (the device's lines,
  the wall clock, the buttons the operator clicked).
\<close>

subsection \<open>Text\<close>

text \<open>
  Python text is modelled by \<^typ>\<open>string\<close>; a character stands for a code point below 256.
  \<^verbatim>\<open>str.strip()\<close> removes the characters for which \<^verbatim>\<open>str.isspace\<close> holds from both
  ends; below 256 these are U+0009..U+000D, U+001C..U+0020, U+0085 and U+00A0.
\<close>

definition isspace :: "char \<Rightarrow> bool" where
  "isspace c =
     (let n = (of_char c :: nat)
      in (9 \<le> n \<and> n \<le> 13) \<or> (28 \<le> n \<and> n \<le> 32) \<or> n = 133 \<or> n = 160)"

definition strip :: "string \<Rightarrow> string" where
  "strip s = rev (dropWhile isspace (rev (dropWhile isspace s)))"

text \<open>\<^verbatim>\<open>s.split(c)\<close> for a one-character separator: the empty text gives one empty token.\<close>

fun split :: "char \<Rightarrow> string \<Rightarrow> string list" where
  "split c [] = [[]]"
| "split c (x # xs) =
     (if x = c then [] # split c xs
      else (case split c xs of
              [] \<Rightarrow> [[x]]
            | t # ts \<Rightarrow> (x # t) # ts))"

text \<open>\<^verbatim>\<open>str(n)\<close> for a non-negative integer, as the f-strings \<^verbatim>\<open>f"TOGGLE{i}"\<close> use it.\<close>

definition digit :: "nat \<Rightarrow> char" where
  "digit d = ''0123456789'' ! d"

fun str :: "nat \<Rightarrow> string" where
  "str n = (if n < 10 then [digit n] else str (n div 10) @ [digit (n mod 10)])"

declare str.simps [simp del]

subsection \<open>Data model\<close>

text \<open>
  A wall-clock instant, as \<^verbatim>\<open>pd.Timestamp.now()\<close> reads it (the local time of the host,
  counted in some fixed unit).
\<close>

type_synonym instant = int

text \<open>
  One row of the data frame \<^verbatim>\<open>st.session_state.data\<close>. The type \<^typ>\<open>'f\<close> stands for
  Python's floating-point values.
\<close>

record 'f sample =
  timestamp :: instant
  current :: 'f

text \<open>
  The functions of Python and pandas that the script calls on floating-point values are
  parameters of the model:
  \<^item> \<open>float\<close> is \<^verbatim>\<open>float(s)\<close> on a text, \<open>None\<close> where it raises \<^verbatim>\<open>ValueError\<close>;
  \<^item> \<open>format_2f\<close> is the format specification \<^verbatim>\<open>.2f\<close> of an f-string;
  \<^item> \<open>describe\<close> is \<^verbatim>\<open>DataFrame.describe()\<close>, a table of type \<^typ>\<open>'t\<close>.
\<close>

record ('f, 't) pylib =
  float :: "string \<Rightarrow> 'f option"
  format_2f :: "'f \<Rightarrow> string"
  describe :: "'f sample list \<Rightarrow> 't"

text \<open>The exceptions that leave a function of the script.\<close>

datatype py_error = UnicodeDecodeError | IndexError | AttributeError

text \<open>The operations the script performs on the serial link and on the process, in order.\<close>

datatype io_event = Ser_write string | Sleep | Ser_readline

text \<open>
  The elements the script renders. A chart is identified by the data frame it plots; its
  styling is constant.
\<close>

datatype ('f, 't) element =
    St_subheader string
  | St_write string
  | St_error string
  | St_metric string string
  | St_columns nat
  | St_button string
  | Col_button nat string
  | Col_write nat string
  | St_dataframe "'f sample list"
  | St_altair_chart "'f sample list"
  | St_write_table 't

text \<open>
  What one \<^verbatim>\<open>ser.readline().decode()\<close> yields: the text of the line, or \<open>None\<close> when
  the bytes received are not valid text and \<^verbatim>\<open>decode\<close> raises; and the wall clock at the
  moment the read returns.
\<close>

record reply =
  line :: "string option"
  arrival :: instant

text \<open>
  The world. \<open>data\<close> is \<^verbatim>\<open>st.session_state.data\<close>, \<open>None\<close> while the key is not
  in the session state. \<open>rx\<close> is what the successive reads of the link will yield; when it is
  used up the device is silent, and a read times out with no bytes. \<open>clicked\<close> tells for the
  label of a button whether the operator clicked it for this run of the script.
\<close>

record ('f, 't) world =
  data :: "'f sample list option"
  rendered :: "('f, 't) element list"
  io :: "io_event list"
  rx :: "reply list"
  wall :: instant
  clicked :: "string \<Rightarrow> bool"

text \<open>
  The outcome of a call: it returns a value, or an exception leaves it. Both carry the world
  at that moment, \<open>after\<close> the call.
\<close>

datatype ('a, 's) outcome = Return 'a 's | Raise py_error 's

fun after :: "('a, 's) outcome \<Rightarrow> 's" where
  "after (Return a s) = s"
| "after (Raise e s) = s"

definition render :: "('f, 't) element \<Rightarrow> ('f, 't) world \<Rightarrow> ('f, 't) world" where
  "render e w = w\<lparr>rendered := rendered w @ [e]\<rparr>"

definition perform :: "io_event \<Rightarrow> ('f, 't) world \<Rightarrow> ('f, 't) world" where
  "perform e w = w\<lparr>io := io w @ [e]\<rparr>"

subsection \<open>The serial link\<close>

text \<open>The handle \<^verbatim>\<open>ser\<close>: an open \<^verbatim>\<open>serial.Serial\<close>, or \<open>None\<close>.\<close>

datatype serial = Serial

text \<open>
  \<^verbatim>\<open>ser.readline().decode()\<close>: the next reply of the device; without one the read
  times out, returns no bytes, and the model leaves the wall clock as it was. An exception
  of the link itself (a write or a read that fails) is outside the model.
\<close>

definition readline_decode :: "('f, 't) world \<Rightarrow> (string, ('f, 't) world) outcome" where
  "readline_decode w =
     (let w1 = perform Ser_readline w
      in case rx w1 of
           [] \<Rightarrow> Return [] w1
         | r # rs \<Rightarrow>
             (let w2 = w1\<lparr>rx := rs, wall := arrival r\<rparr>
              in case line r of
                   None \<Rightarrow> Raise UnicodeDecodeError w2
                 | Some t \<Rightarrow> Return t w2))"

text \<open>
  \<^verbatim>\<open>send_command\<close>: on a handle, write the command, sleep, read one line, decode it
  and strip it; without one, the literal text.
\<close>

definition send_command ::
  "serial option \<Rightarrow> string \<Rightarrow> ('f, 't) world \<Rightarrow> (string, ('f, 't) world) outcome" where
  "send_command ser command w =
     (case ser of
        Some h \<Rightarrow>
          (let w1 = perform (Ser_write command) w;
               w2 = perform Sleep w1
           in case readline_decode w2 of
                Raise e w3 \<Rightarrow> Raise e w3
              | Return t w3 \<Rightarrow> Return (strip t) w3)
      | None \<Rightarrow> Return ''Error: No serial connection'' w)"

subsection \<open>The sample store and its views\<close>

definition initialize_session_state :: "('f, 't) world \<Rightarrow> ('f, 't) world" where
  "initialize_session_state w =
     (case data w of
        None \<Rightarrow> w\<lparr>data := Some []\<rparr>
      | Some xs \<Rightarrow> w)"

definition display_current_reading ::
  "('f, 't) pylib \<Rightarrow> ('f, 't) world \<Rightarrow> (unit, ('f, 't) world) outcome" where
  "display_current_reading lib w =
     (case data w of
        None \<Rightarrow> Raise AttributeError w
      | Some xs \<Rightarrow>
          if xs \<noteq> [] then
            (let latest_current = current (last xs)
             in Return () (render (St_metric ''Current'' (format_2f lib latest_current @ '' A'')) w))
          else Return () w)"

definition display_current_chart :: "('f, 't) world \<Rightarrow> (unit, ('f, 't) world) outcome" where
  "display_current_chart w =
     (case data w of
        None \<Rightarrow> Raise AttributeError w
      | Some xs \<Rightarrow>
          if xs \<noteq> [] then Return () (render (St_altair_chart xs) w)
          else Return () w)"

text \<open>
  \<^verbatim>\<open>read_current\<close>: the exchange is outside the \<^verbatim>\<open>try\<close>, so an exception of the
  exchange leaves the function; the \<^verbatim>\<open>ValueError\<close> of \<^verbatim>\<open>float\<close> is caught.
  \<^verbatim>\<open>pd.concat\<close> with \<^verbatim>\<open>ignore_index=True\<close> puts the new row after the old ones.
\<close>

definition read_current ::
  "('f, 't) pylib \<Rightarrow> serial option \<Rightarrow> ('f, 't) world \<Rightarrow> (unit, ('f, 't) world) outcome" where
  "read_current lib ser w =
     (case send_command ser ''READ'' w of
        Raise e w1 \<Rightarrow> Raise e w1
      | Return current_str w1 \<Rightarrow>
          (case float lib current_str of
             Some c \<Rightarrow>
               (let new_data = [\<lparr>timestamp = wall w1, current = c\<rparr>]
                in case data w1 of
                     None \<Rightarrow> Raise AttributeError w1
                   | Some xs \<Rightarrow> Return () (w1\<lparr>data := Some (xs @ new_data)\<rparr>))
           | None \<Rightarrow>
               Return () (render (St_error (''Invalid current reading: '' @ current_str)) w1)))"

subsection \<open>The pages\<close>

text \<open>
  The loop \<^verbatim>\<open>for i in range(5)\<close> over the toggle buttons, as a recursion on the indices
  still to visit.
\<close>

fun toggle_buttons ::
  "serial option \<Rightarrow> nat list \<Rightarrow> ('f, 't) world \<Rightarrow> (unit, ('f, 't) world) outcome" where
  "toggle_buttons ser [] w = Return () w"
| "toggle_buttons ser (i # is) w =
     (let w1 = render (Col_button i (''Button '' @ str i)) w
      in if clicked w1 (''Button '' @ str i) then
           (case send_command ser (''TOGGLE'' @ str i) w1 of
              Raise e w2 \<Rightarrow> Raise e w2
            | Return response w2 \<Rightarrow>
                toggle_buttons ser is
                  (render (St_write (''Control System Response: '' @ response)) w2))
         else toggle_buttons ser is w1)"

text \<open>
  The loop \<^verbatim>\<open>for i, state in enumerate(states)\<close>: \<open>n\<close> is the number of columns that
  \<^verbatim>\<open>st.columns\<close> returned, and \<^verbatim>\<open>status_cols[i]\<close> raises \<^verbatim>\<open>IndexError\<close> from
  \<open>n\<close> on.
\<close>

fun status_rows ::
  "nat \<Rightarrow> nat \<Rightarrow> string list \<Rightarrow> ('f, 't) world \<Rightarrow> (unit, ('f, 't) world) outcome" where
  "status_rows n i [] w = Return () w"
| "status_rows n i (state # states) w =
     (if i < n then
        status_rows n (Suc i) states
          (render (Col_write i (''BULD-BUTTON '' @ str i @ '': '' @ state)) w)
      else Raise IndexError w)"

text \<open>
  The block of \<^verbatim>\<open>system_control\<close> under the subheader "Bulb Status": the exchange
  for \<^verbatim>\<open>STATUS\<close> and, under \<^verbatim>\<open>if status\<close>, the split, the five columns and the loop.
\<close>

definition bulb_status ::
  "serial option \<Rightarrow> ('f, 't) world \<Rightarrow> (unit, ('f, 't) world) outcome" where
  "bulb_status ser w =
     (let w1 = render (St_subheader ''Bulb Status'') w
      in case send_command ser ''STATUS'' w1 of
           Raise e w2 \<Rightarrow> Raise e w2
         | Return status w2 \<Rightarrow>
             if status \<noteq> [] then
               (let states = split CHR '','' status;
                    w3 = render (St_columns 5) w2
                in status_rows 5 0 states w3)
             else Return () w2)"

definition current_monitoring ::
  "('f, 't) pylib \<Rightarrow> serial option \<Rightarrow> ('f, 't) world \<Rightarrow> (unit, ('f, 't) world) outcome" where
  "current_monitoring lib ser w =
     (let w1 = render (St_subheader ''Current Monitoring'') w;
          w2 = render (St_button ''Read Current'') w1
      in case (if clicked w2 ''Read Current'' then read_current lib ser w2 else Return () w2) of
           Raise e w3 \<Rightarrow> Raise e w3
         | Return u w3 \<Rightarrow>
             (case display_current_reading lib w3 of
                Raise e w4 \<Rightarrow> Raise e w4
              | Return u w4 \<Rightarrow> display_current_chart w4))"

text \<open>
  \<^verbatim>\<open>system_control\<close>: the toggle buttons, the status of the bulbs, then the same three
  steps as \<^verbatim>\<open>current_monitoring\<close>.
\<close>

definition system_control ::
  "('f, 't) pylib \<Rightarrow> serial option \<Rightarrow> ('f, 't) world \<Rightarrow> (unit, ('f, 't) world) outcome" where
  "system_control lib ser w =
     (let w1 = render (St_subheader ''Bulb Control'') w;
          w2 = render (St_columns 5) w1
      in case toggle_buttons ser [0, 1, 2, 3, 4] w2 of
           Raise e w3 \<Rightarrow> Raise e w3
         | Return u w3 \<Rightarrow>
             (case bulb_status ser w3 of
                Raise e w4 \<Rightarrow> Raise e w4
              | Return u w4 \<Rightarrow> current_monitoring lib ser w4))"

definition data_analytics ::
  "('f, 't) pylib \<Rightarrow> ('f, 't) world \<Rightarrow> (unit, ('f, 't) world) outcome" where
  "data_analytics lib w =
     (let w1 = render (St_subheader ''Data Analytics and Reporting'') w
      in case data w1 of
           None \<Rightarrow> Raise AttributeError w1
         | Some df \<Rightarrow>
             if df = [] then
               Return () (render (St_write ''No data available for analytics.'') w1)
             else
               (let w2 = render (St_write ''Data Overview'') w1;
                    w3 = render (St_dataframe df) w2;
                    w4 = render (St_write ''Data Chart'') w3;
                    w5 = render (St_altair_chart df) w4;
                    w6 = render (St_write ''Summary Statistics'') w5
                in Return () (render (St_write_table (describe lib df)) w6)))"

subsection \<open>Sessions\<close>

text \<open>
  A session is a sequence of calls of the functions above on one world. Before each call the
  operator's clicks are those of the current run of the script. An exception ends the run in
  which it is raised; the session state stays as it was at that moment and the session goes on.
\<close>

datatype call =
    Initialize_session_state
  | Send_command string
  | Read_current
  | Display_current_reading
  | Display_current_chart
  | Current_monitoring
  | System_control
  | Data_analytics

fun run_call ::
  "('f, 't) pylib \<Rightarrow> serial option \<Rightarrow> call \<Rightarrow> ('f, 't) world \<Rightarrow> ('f, 't) world" where
  "run_call lib ser Initialize_session_state w = initialize_session_state w"
| "run_call lib ser (Send_command c) w = after (send_command ser c w)"
| "run_call lib ser Read_current w = after (read_current lib ser w)"
| "run_call lib ser Display_current_reading w = after (display_current_reading lib w)"
| "run_call lib ser Display_current_chart w = after (display_current_chart w)"
| "run_call lib ser Current_monitoring w = after (current_monitoring lib ser w)"
| "run_call lib ser System_control w = after (system_control lib ser w)"
| "run_call lib ser Data_analytics w = after (data_analytics lib w)"

fun session ::
  "('f, 't) pylib \<Rightarrow> serial option \<Rightarrow> (call \<times> (string \<Rightarrow> bool)) list \<Rightarrow>
     ('f, 't) world \<Rightarrow> ('f, 't) world" where
  "session lib ser [] w = w"
| "session lib ser ((c, cl) # cs) w = session lib ser cs (run_call lib ser c (w\<lparr>clicked := cl\<rparr>))"

subsection \<open>Example inputs\<close>

text \<open>
  The summary that \<^verbatim>\<open>describe()\<close> gives for a column of objects: the number of
  values, the number of distinct values, a most frequent value (the first of them here, pandas
  leaves the choice open) and its frequency. The frame that
  \<^verbatim>\<open>initialize_session_state\<close> creates has no column types, so its columns are
  columns of objects, and where \<^verbatim>\<open>pd.concat\<close> keeps them so (pandas 3) this is the
  summary of the column \<^verbatim>\<open>current\<close>. \<open>None\<close> stands for \<^verbatim>\<open>NaN\<close>.
\<close>

definition top :: "real list \<Rightarrow> real option" where
  "top xs =
     (case xs of
        [] \<Rightarrow> None
      | x # ys \<Rightarrow> Some (fold (\<lambda>y t. if count_list xs t < count_list xs y then y else t) ys x))"

definition describe_object :: "real sample list \<Rightarrow> (string \<times> real option) list" where
  "describe_object df =
     (let xs = map current df
      in [(''count'', Some (real (length xs))),
          (''unique'', Some (real (length (remdups xs)))),
          (''top'', top xs),
          (''freq'', map_option (\<lambda>t. real (count_list xs t)) (top xs))])"

text \<open>
  A library to run the model on: \<open>float\<close> and \<open>format_2f\<close> are given on the two values
  the examples use, \<open>describe\<close> is the summary of a column of objects.
\<close>

definition example_lib :: "(real, (string \<times> real option) list) pylib" where
  "example_lib =
     \<lparr>float = map_of [(''1.5'', 3 / 2), (''3.0'', 3)],
      format_2f = (\<lambda>x. if x = 3 / 2 then ''1.50'' else if x = 3 then ''3.00'' else []),
      describe = describe_object\<rparr>"

text \<open>No button is clicked.\<close>

definition no_click :: "string \<Rightarrow> bool" where
  "no_click label = False"

text \<open>Exactly the button with this label is clicked.\<close>

definition click :: "string \<Rightarrow> string \<Rightarrow> bool" where
  "click b label = (label = b)"

text \<open>
  A world with an empty sample store at wall-clock time 10, in which the device will answer
  the given lines at the given times.
\<close>

definition example_world ::
  "(string \<Rightarrow> bool) \<Rightarrow> (string \<times> instant) list \<Rightarrow>
     (real, (string \<times> real option) list) world" where
  "example_world cl answers =
     \<lparr>data = Some [], rendered = [], io = [],
      rx = map (\<lambda>(t, a). \<lparr>line = Some t, arrival = a\<rparr>) answers,
      wall = 10, clicked = cl\<rparr>"

subsection \<open>Notions used in the statements\<close>

text \<open>The row that the status display writes for the token at position \<open>i\<close>.\<close>

definition row :: "nat \<times> string \<Rightarrow> ('f, 't) element" where
  "row p = Col_write (fst p) (''BULD-BUTTON '' @ str (fst p) @ '': '' @ snd p)"

text \<open>The toggle button at position \<open>i\<close>.\<close>

definition toggle_button :: "nat \<Rightarrow> ('f, 't) element" where
  "toggle_button i = Col_button i (''Button '' @ str i)"

text \<open>
  The samples \<open>xs\<close> are in the order of their timestamps, none is later than the wall clock
  of the world, and the wall clock will not be set back: the readings to come are in order
  and not before the present one.
\<close>

definition ordered :: "('f, 't) world \<Rightarrow> 'f sample list \<Rightarrow> bool" where
  "ordered w xs =
     (sorted (map timestamp xs) \<and> (\<forall>x \<in> set xs. timestamp x \<le> wall w) \<and>
      sorted (wall w # map arrival (rx w)))"

text \<open>
  The store of \<open>w'\<close> is the store of \<open>w\<close> with samples added at its end, and it is
  ordered if the store of \<open>w\<close> was.
\<close>

definition extends :: "('f, 't) world \<Rightarrow> ('f, 't) world \<Rightarrow> bool" where
  "extends w w' =
     (\<forall>xs. data w = Some xs \<longrightarrow>
        (\<exists>ys. data w' = Some (xs @ ys) \<and> (ordered w xs \<longrightarrow> ordered w' (xs @ ys))))"

section \<open>Properties\<close>

subsection \<open>The exchange without a connection\<close>

text \<open>
  C3. For every command text, \<^verbatim>\<open>send_command\<close> on a null handle returns the literal
  text "Error: No serial connection", and the world is the one it was called in: nothing is
  written to the link, no sleep and no read is performed.
\<close>

theorem send_command_no_connection:
  "send_command None command w = Return ''Error: No serial connection'' w"
  by (simp add: send_command_def)

subsection \<open>The store only grows\<close>

text \<open>
  Every function of the script takes a world to one that \<open>extends\<close> it: the only write to
  the store is the append of \<^verbatim>\<open>read_current\<close> (and the creation of the empty store), and
  the wall clock only changes when a read of the link returns.
\<close>

lemma extends_refl: "extends w w"
  by (auto simp: extends_def)

lemma extends_trans: "extends w w1 \<Longrightarrow> extends w1 w2 \<Longrightarrow> extends w w2"
  unfolding extends_def
proof (intro allI impI)
  fix xs assume a: "\<forall>xs. data w = Some xs \<longrightarrow>
        (\<exists>ys. data w1 = Some (xs @ ys) \<and> (ordered w xs \<longrightarrow> ordered w1 (xs @ ys)))"
    and b: "\<forall>xs. data w1 = Some xs \<longrightarrow>
        (\<exists>ys. data w2 = Some (xs @ ys) \<and> (ordered w1 xs \<longrightarrow> ordered w2 (xs @ ys)))"
    and d: "data w = Some xs"
  from a d obtain ys where 1: "data w1 = Some (xs @ ys)" "ordered w xs \<longrightarrow> ordered w1 (xs @ ys)"
    by blast
  from b 1(1) obtain zs where 2: "data w2 = Some ((xs @ ys) @ zs)"
    "ordered w1 (xs @ ys) \<longrightarrow> ordered w2 ((xs @ ys) @ zs)"
    by blast
  show "\<exists>ys. data w2 = Some (xs @ ys) \<and> (ordered w xs \<longrightarrow> ordered w2 (xs @ ys))"
    using 1 2 by (intro exI [of _ "ys @ zs"]) simp
qed

lemma extends_same:
  "data w' = data w \<Longrightarrow> wall w' = wall w \<Longrightarrow> rx w' = rx w \<Longrightarrow> extends w w'"
  by (auto simp: extends_def ordered_def)

lemma extends_render: "extends w (render e w)"
  by (rule extends_same) (simp_all add: render_def)

lemma extends_perform: "extends w (perform e w)"
  by (rule extends_same) (simp_all add: perform_def)

lemma extends_clicked: "extends w (w\<lparr>clicked := cl\<rparr>)"
  by (rule extends_same) simp_all

lemma extends_readline: "extends w (after (readline_decode w))"
proof (cases "rx w")
  case Nil
  then show ?thesis
    by (auto simp: readline_decode_def perform_def intro: extends_same)
next
  case (Cons r rs)
  have "extends w (w\<lparr>io := io w @ [Ser_readline], rx := rs, wall := arrival r\<rparr>)"
    using Cons by (fastforce simp: extends_def ordered_def)
  then show ?thesis
    using Cons by (auto simp: readline_decode_def perform_def Let_def split: option.splits)
qed

lemma extends_send_command: "extends w (after (send_command ser c w))"
proof (cases ser)
  case None
  then show ?thesis by (simp add: send_command_def extends_refl)
next
  case (Some h)
  let ?w2 = "perform Sleep (perform (Ser_write c) w)"
  have "extends w ?w2"
    using extends_perform extends_trans by blast
  moreover have "extends ?w2 (after (readline_decode ?w2))"
    by (rule extends_readline)
  moreover have "after (send_command ser c w) = after (readline_decode ?w2)"
    using Some by (simp add: send_command_def split: outcome.splits)
  ultimately show ?thesis
    using extends_trans by metis
qed

lemma extends_append_now:
  "data w = Some xs \<Longrightarrow> extends w (w\<lparr>data := Some (xs @ [\<lparr>timestamp = wall w, current = c\<rparr>])\<rparr>)"
  by (auto simp: extends_def ordered_def sorted_append)

lemma extends_read_current: "extends w (after (read_current lib ser w))"
proof (cases "send_command ser ''READ'' w")
  case (Raise e w1)
  then show ?thesis
    using extends_send_command [of w ser "''READ''"] by (simp add: read_current_def)
next
  case (Return s w1)
  then have 1: "extends w w1"
    using extends_send_command [of w ser "''READ''"] by simp
  have "extends w1 (after (read_current lib ser w))"
    using Return
    by (auto simp: read_current_def extends_refl extends_render extends_append_now
        split: option.splits)
  with 1 show ?thesis by (rule extends_trans)
qed

lemma extends_display_current_reading: "extends w (after (display_current_reading lib w))"
  by (auto simp: display_current_reading_def extends_refl extends_render split: option.splits)

lemma extends_display_current_chart: "extends w (after (display_current_chart w))"
  by (auto simp: display_current_chart_def extends_refl extends_render split: option.splits)

lemma extends_current_monitoring: "extends w (after (current_monitoring lib ser w))"
proof -
  let ?w2 = "render (St_button ''Read Current'') (render (St_subheader ''Current Monitoring'') w)"
  let ?r = "if clicked ?w2 ''Read Current'' then read_current lib ser ?w2 else Return () ?w2"
  have 0: "extends w ?w2"
    using extends_render extends_trans by blast
  have 1: "extends ?w2 (after ?r)"
    by (simp add: extends_refl extends_read_current)
  have 2: "extends (after ?r) (after (current_monitoring lib ser w))"
  proof (cases ?r)
    case (Raise e w3)
    then show ?thesis by (simp add: current_monitoring_def extends_refl)
  next
    case (Return u w3)
    show ?thesis
    proof (cases "display_current_reading lib w3")
      case r: (Raise e w4)
      with Return show ?thesis
        using extends_display_current_reading [of w3 lib]
        by (simp add: current_monitoring_def)
    next
      case r: (Return u' w4)
      with Return show ?thesis
        using extends_display_current_reading [of w3 lib] extends_display_current_chart [of w4]
        by (auto simp: current_monitoring_def intro: extends_trans)
    qed
  qed
  from 0 1 2 show ?thesis using extends_trans by blast
qed

lemma extends_toggle_buttons: "extends w (after (toggle_buttons ser is w))"
proof (induction "is" arbitrary: w)
  case Nil
  then show ?case by (simp add: extends_refl)
next
  case (Cons i "is")
  let ?w1 = "render (Col_button i (''Button '' @ str i)) w"
  have 1: "extends w ?w1" by (rule extends_render)
  show ?case
  proof (cases "clicked ?w1 (''Button '' @ str i)")
    case False
    then show ?thesis
      using Cons.IH [of ?w1] 1 by (auto intro: extends_trans)
  next
    case True
    show ?thesis
    proof (cases "send_command ser (''TOGGLE'' @ str i) ?w1")
      case (Raise e w2)
      then show ?thesis
        using True 1 extends_send_command [of ?w1 ser "''TOGGLE'' @ str i"]
        by (auto intro: extends_trans)
    next
      case (Return response w2)
      let ?w3 = "render (St_write (''Control System Response: '' @ response)) w2"
      have "extends ?w1 w2"
        using Return extends_send_command [of ?w1 ser "''TOGGLE'' @ str i"] by simp
      then have "extends w ?w3"
        using 1 extends_render [of w2] by (blast intro: extends_trans)
      then have "extends w (after (toggle_buttons ser is ?w3))"
        using Cons.IH [of ?w3] by (rule extends_trans)
      then show ?thesis
        using True Return by simp
    qed
  qed
qed

lemma extends_status_rows: "extends w (after (status_rows n i ss w))"
proof (induction ss arbitrary: i w)
  case Nil
  then show ?case by (simp add: extends_refl)
next
  case (Cons s ss)
  let ?w1 = "render (Col_write i (''BULD-BUTTON '' @ str i @ '': '' @ s)) w"
  have "extends w (after (status_rows n (Suc i) ss ?w1))"
    using extends_render [of w] Cons.IH [of ?w1] by (blast intro: extends_trans)
  then show ?case
    by (simp add: extends_refl)
qed

lemma extends_bulb_status: "extends w (after (bulb_status ser w))"
proof -
  let ?w1 = "render (St_subheader ''Bulb Status'') w"
  have 1: "extends w (after (send_command ser ''STATUS'' ?w1))"
    using extends_render extends_send_command by (blast intro: extends_trans)
  show ?thesis
  proof (cases "send_command ser ''STATUS'' ?w1")
    case (Raise e w2)
    then show ?thesis using 1 by (simp add: bulb_status_def)
  next
    case (Return status w2)
    then have "extends w w2" using 1 by simp
    moreover have "extends w2 (after (status_rows 5 0 (split CHR '','' status) (render (St_columns 5) w2)))"
      using extends_render extends_status_rows by (blast intro: extends_trans)
    ultimately show ?thesis
      using Return by (auto simp: bulb_status_def intro: extends_trans)
  qed
qed

lemma extends_system_control: "extends w (after (system_control lib ser w))"
proof -
  let ?w2 = "render (St_columns 5) (render (St_subheader ''Bulb Control'') w)"
  let ?t = "toggle_buttons ser [0, 1, 2, 3, 4] ?w2"
  have 1: "extends w (after ?t)"
    using extends_render extends_toggle_buttons by (blast intro: extends_trans)
  show ?thesis
  proof (cases ?t)
    case (Raise e w3)
    then show ?thesis using 1 by (simp add: system_control_def)
  next
    case (Return u w3)
    then have 2: "extends w w3" using 1 by simp
    show ?thesis
    proof (cases "bulb_status ser w3")
      case r: (Raise e w4)
      then show ?thesis
        using Return 2 extends_bulb_status [of w3 ser]
        by (auto simp: system_control_def intro: extends_trans)
    next
      case r: (Return u' w4)
      then have "extends w3 w4" using extends_bulb_status [of w3 ser] by simp
      then have "extends w (after (current_monitoring lib ser w4))"
        using 2 extends_current_monitoring by (blast intro: extends_trans)
      then show ?thesis
        using Return r by (simp add: system_control_def)
    qed
  qed
qed

lemma extends_data_analytics: "extends w (after (data_analytics lib w))"
  by (rule extends_same) (simp_all add: data_analytics_def render_def Let_def split: option.splits)

lemma extends_initialize: "extends w (initialize_session_state w)"
  by (auto simp: initialize_session_state_def extends_def split: option.splits)

lemma extends_run_call: "extends w (run_call lib ser c w)"
  by (cases c)
    (simp_all add: extends_initialize extends_send_command extends_read_current
      extends_display_current_reading extends_display_current_chart
      extends_current_monitoring extends_system_control extends_data_analytics)

lemma extends_session: "extends w (session lib ser cs w)"
proof (induction cs arbitrary: w)
  case Nil
  then show ?case by (simp add: extends_refl)
next
  case (Cons p cs)
  obtain c cl where p: "p = (c, cl)" by (cases p)
  have "extends w (run_call lib ser c (w\<lparr>clicked := cl\<rparr>))"
    using extends_clicked extends_run_call by (blast intro: extends_trans)
  then show ?case
    using Cons.IH p by (auto intro: extends_trans)
qed


subsection \<open>Facts about the exchange and the loops\<close>

lemma send_command_frame:
  "data (after (send_command ser c w)) = data w"
  "rendered (after (send_command ser c w)) = rendered w"
  "clicked (after (send_command ser c w)) = clicked w"
  by (auto simp: send_command_def readline_decode_def perform_def Let_def
      split: option.splits list.splits)

lemma send_command_Return_frame:
  assumes "send_command ser c w = Return s w'"
  shows "data w' = data w" and "rendered w' = rendered w" and "clicked w' = clicked w"
  using send_command_frame [of ser c w] assms by simp_all

lemma send_command_io:
  "io (after (send_command (Some h) c w)) = io w @ [Ser_write c, Sleep, Ser_readline]"
  by (auto simp: send_command_def readline_decode_def perform_def Let_def
      split: option.splits list.splits)

lemma send_command_Return_io:
  assumes "send_command (Some h) c w = Return s w'"
  shows "io w' = io w @ [Ser_write c, Sleep, Ser_readline]"
  using send_command_io [of h c w] assms by simp

lemma send_command_wall:
  "wall (after (send_command ser c w)) =
     (case ser of
        None \<Rightarrow> wall w
      | Some h \<Rightarrow> (case rx w of [] \<Rightarrow> wall w | r # rs \<Rightarrow> arrival r))"
  by (auto simp: send_command_def readline_decode_def perform_def Let_def
      split: option.splits list.splits)

lemma status_rows_eq:
  "status_rows n i ss w =
     (if length ss \<le> n - i
      then Return () (w\<lparr>rendered := rendered w @ map row (enumerate i ss)\<rparr>)
      else Raise IndexError (w\<lparr>rendered := rendered w @ map row (enumerate i (take (n - i) ss))\<rparr>))"
proof (induction ss arbitrary: i w)
  case Nil
  then show ?case by simp
next
  case (Cons s ss)
  show ?case
  proof (cases "i < n")
    case True
    then have "n - i = Suc (n - Suc i)" by simp
    with True show ?thesis
      by (simp add: Cons.IH render_def row_def)
  next
    case False
    then show ?thesis by simp
  qed
qed

lemma bulb_status_outcome:
  assumes "send_command ser ''STATUS'' (render (St_subheader ''Bulb Status'') w) =
             Return status w'"
    and "status \<noteq> []"
  shows "bulb_status ser w =
           (if length (split CHR '','' status) \<le> 5
            then Return ()
                   (w'\<lparr>rendered := rendered w' @
                         St_columns 5 # map row (enumerate 0 (split CHR '','' status))\<rparr>)
            else Raise IndexError
                   (w'\<lparr>rendered := rendered w' @
                         St_columns 5 #
                         map row (enumerate 0 (take 5 (split CHR '','' status)))\<rparr>))"
  using assms by (simp add: bulb_status_def status_rows_eq render_def Let_def)

lemma split_not_Nil: "split c s \<noteq> []"
  by (induction s) (auto split: list.splits)

lemma str_digits:
  "str 0 = ''0''" "str (Suc 0) = ''1''" "str 1 = ''1''" "str 2 = ''2''" "str 3 = ''3''"
  "str 4 = ''4''"
  by (simp_all add: str.simps digit_def)


subsection \<open>Reading the current\<close>

text \<open>
  C1, as amended. When the exchange for \<^verbatim>\<open>READ\<close> returns a text \<open>s\<close> that
  \<^verbatim>\<open>float\<close> accepts, and the sample store exists, \<^verbatim>\<open>read_current\<close> returns and
  the store is the old store followed by exactly one new sample: its current is
  \<^verbatim>\<open>float(s)\<close> and its timestamp is the wall clock read after the exchange. The exchange
  itself adds no sample. The timestamp is not before the time of the call provided the wall
  clock was not set back while the exchange was waiting for the device.
\<close>

theorem read_current_appends:
  assumes "send_command ser ''READ'' w = Return s w'"
    and "float lib s = Some c"
    and "data w = Some xs"
  shows "read_current lib ser w =
           Return () (w'\<lparr>data := Some (xs @ [\<lparr>timestamp = wall w', current = c\<rparr>])\<rparr>) \<and>
         data w' = Some xs \<and>
         ((\<forall>r rs. rx w = r # rs \<longrightarrow> wall w \<le> arrival r) \<longrightarrow> wall w \<le> wall w')"
proof -
  have d: "data w' = Some xs"
    using send_command_Return_frame(1) [OF assms(1)] assms(3) by simp
  have "wall w' = (case ser of None \<Rightarrow> wall w
                   | Some h \<Rightarrow> (case rx w of [] \<Rightarrow> wall w | r # rs \<Rightarrow> arrival r))"
    using send_command_wall [of ser "''READ''" w] assms(1) by simp
  then have "(\<forall>r rs. rx w = r # rs \<longrightarrow> wall w \<le> arrival r) \<longrightarrow> wall w \<le> wall w'"
    by (auto split: option.splits list.splits)
  moreover have "read_current lib ser w =
           Return () (w'\<lparr>data := Some (xs @ [\<lparr>timestamp = wall w', current = c\<rparr>])\<rparr>)"
    using assms(1,2) d by (simp add: read_current_def)
  ultimately show ?thesis using d by simp
qed

theorem read_current_appends_witness:
  "send_command (Some Serial) ''READ'' (example_world no_click [(''1.5\<newline>'', 12)]) =
     Return ''1.5''
       ((example_world no_click [])\<lparr>io := [Ser_write ''READ'', Sleep, Ser_readline], wall := 12\<rparr>) \<and>
   float example_lib ''1.5'' = Some (3 / 2) \<and>
   data (example_world no_click [(''1.5\<newline>'', 12)]) = Some [] \<and>
   read_current example_lib (Some Serial) (example_world no_click [(''1.5\<newline>'', 12)]) =
     Return ()
       ((example_world no_click [])
          \<lparr>io := [Ser_write ''READ'', Sleep, Ser_readline], wall := 12,
           data := Some [\<lparr>timestamp = 12, current = 3 / 2\<rparr>]\<rparr>) \<and>
   wall (example_world no_click [(''1.5\<newline>'', 12)]) \<le> 12"
proof -
  have h1: "send_command (Some Serial) ''READ'' (example_world no_click [(''1.5\<newline>'', 12)]) =
     Return ''1.5''
       ((example_world no_click [])\<lparr>io := [Ser_write ''READ'', Sleep, Ser_readline], wall := 12\<rparr>)"
    by (simp add: send_command_def readline_decode_def perform_def strip_def isspace_def
        example_world_def)
  have h2: "float example_lib ''1.5'' = Some (3 / 2)"
    by (simp add: example_lib_def)
  have h3: "data (example_world no_click [(''1.5\<newline>'', 12)]) = Some []"
    by (simp add: example_world_def)
  show ?thesis
    using read_current_appends [OF h1 h2 h3] h1 h2 h3
    by (simp add: example_world_def)
qed

text \<open>
  The wall clock reads 10 at the call and is set back while the exchange waits: the device's
  line arrives when it reads 3. The sample is stamped 3, before the time of the call.
\<close>

theorem read_current_timestamp_counterexample:
  "data (after (read_current example_lib (Some Serial) (example_world no_click [(''1.5'', 3)]))) =
     Some [\<lparr>timestamp = 3, current = 3 / 2\<rparr>] \<and>
   timestamp \<lparr>timestamp = 3, current = 3 / 2 :: real\<rparr> <
     wall (example_world no_click [(''1.5'', 3)])"
  by (simp add: read_current_def send_command_def readline_decode_def perform_def strip_def
      isspace_def example_world_def example_lib_def)

text \<open>
  C2. When the exchange for \<^verbatim>\<open>READ\<close> returns a text that \<^verbatim>\<open>float\<close> rejects,
  \<^verbatim>\<open>read_current\<close> returns without raising, the only thing it does after the exchange
  is to render the error "Invalid current reading: " followed by the text, and the sample
  store is the one it was called with.
\<close>

theorem read_current_invalid:
  assumes "send_command ser ''READ'' w = Return s w'"
    and "float lib s = None"
  shows "read_current lib ser w =
           Return () (render (St_error (''Invalid current reading: '' @ s)) w') \<and>
         data (after (read_current lib ser w)) = data w"
  using assms send_command_Return_frame(1) [OF assms(1)]
  by (simp add: read_current_def render_def)

theorem read_current_invalid_witness:
  "send_command (Some Serial) ''READ'' (example_world no_click [(''abc\<newline>'', 12)]) =
     Return ''abc''
       ((example_world no_click [])\<lparr>io := [Ser_write ''READ'', Sleep, Ser_readline], wall := 12\<rparr>) \<and>
   float example_lib ''abc'' = None \<and>
   read_current example_lib (Some Serial) (example_world no_click [(''abc\<newline>'', 12)]) =
     Return ()
       ((example_world no_click [])
          \<lparr>io := [Ser_write ''READ'', Sleep, Ser_readline], wall := 12,
           rendered := [St_error ''Invalid current reading: abc'']\<rparr>) \<and>
   data (after (read_current example_lib (Some Serial)
                  (example_world no_click [(''abc\<newline>'', 12)]))) = Some []"
proof -
  have h1: "send_command (Some Serial) ''READ'' (example_world no_click [(''abc\<newline>'', 12)]) =
     Return ''abc''
       ((example_world no_click [])\<lparr>io := [Ser_write ''READ'', Sleep, Ser_readline], wall := 12\<rparr>)"
    by (simp add: send_command_def readline_decode_def perform_def strip_def isspace_def
        example_world_def)
  have h2: "float example_lib ''abc'' = None"
    by (simp add: example_lib_def)
  show ?thesis
    using read_current_invalid [OF h1 h2] h1 h2
    by (simp add: example_world_def render_def)
qed

subsection \<open>The sample store over a session\<close>

text \<open>
  C5, as amended. Over every session, whatever the calls and the clicks, the sample store only
  grows at its end: the store after the session is the store before it followed by the samples
  added, in the order in which they were added; no sample is removed or changed. The
  timestamps of the store are in non-decreasing order provided they were so before the
  session, none of them is later than the wall clock at its start, and the wall clock is
  not set back during the session.
\<close>

theorem store_append_only:
  assumes "data w = Some xs"
  shows "\<exists>ys. data (session lib ser cs w) = Some (xs @ ys) \<and>
           (sorted (map timestamp xs) \<and> (\<forall>x \<in> set xs. timestamp x \<le> wall w) \<and>
            sorted (wall w # map arrival (rx w)) \<longrightarrow>
            sorted (map timestamp (xs @ ys)))"
  using assms extends_session [of w lib ser cs]
  unfolding extends_def ordered_def by blast

theorem store_append_only_witness:
  "data (example_world no_click [(''1.5'', 12), (''3.0'', 13)]) = Some [] \<and>
   sorted (wall (example_world no_click [(''1.5'', 12), (''3.0'', 13)]) #
           map arrival (rx (example_world no_click [(''1.5'', 12), (''3.0'', 13)]))) \<and>
   data (session example_lib (Some Serial)
           [(Current_monitoring, click ''Read Current''), (Data_analytics, no_click),
            (Current_monitoring, click ''Read Current'')]
           (example_world no_click [(''1.5'', 12), (''3.0'', 13)])) =
     Some [\<lparr>timestamp = 12, current = 3 / 2\<rparr>, \<lparr>timestamp = 13, current = 3\<rparr>] \<and>
   sorted (map timestamp
             [\<lparr>timestamp = 12, current = 3 / 2 :: real\<rparr>, \<lparr>timestamp = 13, current = 3\<rparr>])"
proof -
  have h: "data (example_world no_click [(''1.5'', 12), (''3.0'', 13)]) = Some []"
    by (simp add: example_world_def)
  have d: "data (session example_lib (Some Serial)
           [(Current_monitoring, click ''Read Current''), (Data_analytics, no_click),
            (Current_monitoring, click ''Read Current'')]
           (example_world no_click [(''1.5'', 12), (''3.0'', 13)])) =
     Some [\<lparr>timestamp = 12, current = 3 / 2\<rparr>, \<lparr>timestamp = 13, current = 3\<rparr>]"
    by (simp add: current_monitoring_def data_analytics_def read_current_def
        display_current_reading_def display_current_chart_def
        send_command_def readline_decode_def perform_def render_def strip_def isspace_def
        example_world_def example_lib_def click_def no_click_def Let_def)
  show ?thesis
    using store_append_only [OF h, of example_lib "Some Serial"
        "[(Current_monitoring, click ''Read Current''), (Data_analytics, no_click),
          (Current_monitoring, click ''Read Current'')]"] d
    by (simp add: example_world_def)
qed

text \<open>
  Two reads, the wall clock being set back between them from 12 to 11: the store keeps the
  order of insertion, and its timestamps decrease.
\<close>

theorem store_order_counterexample:
  "data (session example_lib (Some Serial)
           [(Read_current, no_click), (Read_current, no_click)]
           (example_world no_click [(''1.5'', 12), (''3.0'', 11)])) =
     Some [\<lparr>timestamp = 12, current = 3 / 2\<rparr>, \<lparr>timestamp = 11, current = 3\<rparr>] \<and>
   \<not> sorted (map timestamp
                [\<lparr>timestamp = 12, current = 3 / 2 :: real\<rparr>, \<lparr>timestamp = 11, current = 3\<rparr>])"
  by (simp add: read_current_def send_command_def readline_decode_def perform_def strip_def
      isspace_def example_world_def example_lib_def)


subsection \<open>The latest value\<close>

text \<open>
  C6. When the sample store is not empty, \<^verbatim>\<open>display_current_reading\<close> renders one metric
  labelled "Current" whose value is the current of the last sample of the store, the one
  appended most recently, formatted with \<^verbatim>\<open>.2f\<close> and followed by " A". When the store
  is empty it renders nothing.
\<close>

theorem display_current_reading_latest:
  assumes "data w = Some xs"
  shows "(xs \<noteq> [] \<longrightarrow>
            display_current_reading lib w =
              Return ()
                (render (St_metric ''Current'' (format_2f lib (current (last xs)) @ '' A'')) w)) \<and>
         (xs = [] \<longrightarrow> display_current_reading lib w = Return () w)"
  using assms by (simp add: display_current_reading_def)

theorem display_current_reading_latest_witness:
  "data ((example_world no_click [])
           \<lparr>data := Some [\<lparr>timestamp = 11, current = 3\<rparr>, \<lparr>timestamp = 12, current = 3 / 2\<rparr>]\<rparr>) =
     Some [\<lparr>timestamp = 11, current = 3\<rparr>, \<lparr>timestamp = 12, current = 3 / 2\<rparr>] \<and>
   [\<lparr>timestamp = 11, current = 3 :: real\<rparr>, \<lparr>timestamp = 12, current = 3 / 2\<rparr>] \<noteq> [] \<and>
   display_current_reading example_lib
     ((example_world no_click [])
        \<lparr>data := Some [\<lparr>timestamp = 11, current = 3\<rparr>, \<lparr>timestamp = 12, current = 3 / 2\<rparr>]\<rparr>) =
     Return ()
       ((example_world no_click [])
          \<lparr>data := Some [\<lparr>timestamp = 11, current = 3\<rparr>, \<lparr>timestamp = 12, current = 3 / 2\<rparr>],
           rendered := [St_metric ''Current'' ''1.50 A'']\<rparr>) \<and>
   data (example_world no_click []) = Some [] \<and>
   display_current_reading example_lib (example_world no_click []) =
     Return () (example_world no_click [])"
proof -
  have h1: "data ((example_world no_click [])
           \<lparr>data := Some [\<lparr>timestamp = 11, current = 3\<rparr>, \<lparr>timestamp = 12, current = 3 / 2\<rparr>]\<rparr>) =
     Some [\<lparr>timestamp = 11, current = 3\<rparr>, \<lparr>timestamp = 12, current = 3 / 2\<rparr>]"
    by simp
  have h2: "data (example_world no_click []) = Some []"
    by (simp add: example_world_def)
  show ?thesis
    using display_current_reading_latest [OF h1, of example_lib]
      display_current_reading_latest [OF h2, of example_lib] h2
    by (simp add: example_world_def example_lib_def render_def)
qed

subsection \<open>The status of the bulbs\<close>

text \<open>
  C7. When the exchange for \<^verbatim>\<open>STATUS\<close> returns exactly "ON,OFF,ON,OFF,ON", the status
  display returns and renders, after the five columns, five rows in the columns 0 to 4,
  labelled 0 to 4, with the values ON, OFF, ON, OFF, ON in this order.
\<close>

theorem status_display_on_off:
  assumes "send_command ser ''STATUS'' (render (St_subheader ''Bulb Status'') w) =
             Return ''ON,OFF,ON,OFF,ON'' w'"
  shows "bulb_status ser w =
           Return ()
             (w'\<lparr>rendered := rendered w' @
                   [St_columns 5,
                    Col_write 0 ''BULD-BUTTON 0: ON'',
                    Col_write 1 ''BULD-BUTTON 1: OFF'',
                    Col_write 2 ''BULD-BUTTON 2: ON'',
                    Col_write 3 ''BULD-BUTTON 3: OFF'',
                    Col_write 4 ''BULD-BUTTON 4: ON'']\<rparr>)"
  using assms by (simp add: bulb_status_def render_def str.simps digit_def)

theorem status_display_on_off_witness:
  "send_command (Some Serial) ''STATUS''
     (render (St_subheader ''Bulb Status'')
        (example_world no_click [(''ON,OFF,ON,OFF,ON\<newline>'', 12)])) =
     Return ''ON,OFF,ON,OFF,ON''
       ((example_world no_click [])
          \<lparr>io := [Ser_write ''STATUS'', Sleep, Ser_readline], wall := 12,
           rendered := [St_subheader ''Bulb Status'']\<rparr>) \<and>
   bulb_status (Some Serial) (example_world no_click [(''ON,OFF,ON,OFF,ON\<newline>'', 12)]) =
     Return ()
       ((example_world no_click [])
          \<lparr>io := [Ser_write ''STATUS'', Sleep, Ser_readline], wall := 12,
           rendered :=
             [St_subheader ''Bulb Status'', St_columns 5,
              Col_write 0 ''BULD-BUTTON 0: ON'',
              Col_write 1 ''BULD-BUTTON 1: OFF'',
              Col_write 2 ''BULD-BUTTON 2: ON'',
              Col_write 3 ''BULD-BUTTON 3: OFF'',
              Col_write 4 ''BULD-BUTTON 4: ON'']\<rparr>)"
proof -
  have h: "send_command (Some Serial) ''STATUS''
     (render (St_subheader ''Bulb Status'')
        (example_world no_click [(''ON,OFF,ON,OFF,ON\<newline>'', 12)])) =
     Return ''ON,OFF,ON,OFF,ON''
       ((example_world no_click [])
          \<lparr>io := [Ser_write ''STATUS'', Sleep, Ser_readline], wall := 12,
           rendered := [St_subheader ''Bulb Status'']\<rparr>)"
    by (simp add: send_command_def readline_decode_def perform_def render_def strip_def
        isspace_def example_world_def)
  show ?thesis
    using status_display_on_off [OF h] h by (simp add: example_world_def)
qed

text \<open>
  C10, as amended. When the exchange for \<^verbatim>\<open>STATUS\<close> returns the empty text, as it
  does when the read times out, the status display returns at once: no columns and no row are
  rendered. When it returns any other text, the text has at least one token and the loop
  runs: the display renders the five columns and then the rows of the first five tokens at
  most. A null handle is not a case of the empty text: the exchange returns "Error: No serial
  connection", and the display renders one row with this text.
\<close>

theorem status_display_empty:
  assumes "send_command ser ''STATUS'' (render (St_subheader ''Bulb Status'') w) =
             Return status w'"
  shows "(status = [] \<longrightarrow> bulb_status ser w = Return () w') \<and>
         (status \<noteq> [] \<longrightarrow>
            split CHR '','' status \<noteq> [] \<and>
            rendered (after (bulb_status ser w)) =
              rendered w' @
              St_columns 5 # map row (enumerate 0 (take 5 (split CHR '','' status)))) \<and>
         (rx w = [] \<and> ser \<noteq> None \<longrightarrow> status = []) \<and>
         (ser = None \<longrightarrow>
            status = ''Error: No serial connection'' \<and>
            bulb_status ser w =
              Return ()
                (w\<lparr>rendered := rendered w @
                      [St_subheader ''Bulb Status'', St_columns 5,
                       Col_write 0 ''BULD-BUTTON 0: Error: No serial connection'']\<rparr>))"
proof -
  have 1: "(status = [] \<longrightarrow> bulb_status ser w = Return () w') \<and>
         (status \<noteq> [] \<longrightarrow>
            split CHR '','' status \<noteq> [] \<and>
            rendered (after (bulb_status ser w)) =
              rendered w' @
              St_columns 5 # map row (enumerate 0 (take 5 (split CHR '','' status))))"
    using assms
    by (simp add: bulb_status_def status_rows_eq split_not_Nil render_def Let_def)
  have 2: "rx w = [] \<and> ser \<noteq> None \<longrightarrow> status = []"
    using assms
    by (auto simp: send_command_def readline_decode_def perform_def render_def strip_def)
  have 3: "ser = None \<longrightarrow>
            status = ''Error: No serial connection'' \<and>
            bulb_status ser w =
              Return ()
                (w\<lparr>rendered := rendered w @
                      [St_subheader ''Bulb Status'', St_columns 5,
                       Col_write 0 ''BULD-BUTTON 0: Error: No serial connection'']\<rparr>)"
    using assms
    by (auto simp: bulb_status_def send_command_def render_def str_digits)
  from 1 2 3 show ?thesis by simp
qed

theorem status_display_empty_witness:
  "send_command (Some Serial) ''STATUS''
     (render (St_subheader ''Bulb Status'') (example_world no_click [])) =
     Return []
       ((example_world no_click [])
          \<lparr>io := [Ser_write ''STATUS'', Sleep, Ser_readline],
           rendered := [St_subheader ''Bulb Status'']\<rparr>) \<and>
   rx (example_world no_click [] :: (real, (string \<times> real option) list) world) = [] \<and>
   bulb_status (Some Serial) (example_world no_click []) =
     Return ()
       ((example_world no_click [])
          \<lparr>io := [Ser_write ''STATUS'', Sleep, Ser_readline],
           rendered := [St_subheader ''Bulb Status'']\<rparr>) \<and>
   send_command (Some Serial) ''STATUS''
     (render (St_subheader ''Bulb Status'') (example_world no_click [(''ON\<newline>'', 12)])) =
     Return ''ON''
       ((example_world no_click [])
          \<lparr>io := [Ser_write ''STATUS'', Sleep, Ser_readline], wall := 12,
           rendered := [St_subheader ''Bulb Status'']\<rparr>) \<and>
   ''ON'' \<noteq> [] \<and>
   rendered (after (bulb_status (Some Serial) (example_world no_click [(''ON\<newline>'', 12)]))) =
     [St_subheader ''Bulb Status'', St_columns 5, Col_write 0 ''BULD-BUTTON 0: ON''] \<and>
   bulb_status None (example_world no_click []) =
     Return ()
       ((example_world no_click [])
          \<lparr>rendered := [St_subheader ''Bulb Status'', St_columns 5,
                        Col_write 0 ''BULD-BUTTON 0: Error: No serial connection'']\<rparr>)"
proof -
  have h1: "send_command (Some Serial) ''STATUS''
     (render (St_subheader ''Bulb Status'') (example_world no_click [])) =
     Return []
       ((example_world no_click [])
          \<lparr>io := [Ser_write ''STATUS'', Sleep, Ser_readline],
           rendered := [St_subheader ''Bulb Status'']\<rparr>)"
    by (simp add: send_command_def readline_decode_def perform_def render_def strip_def
        example_world_def)
  have h2: "send_command (Some Serial) ''STATUS''
     (render (St_subheader ''Bulb Status'') (example_world no_click [(''ON\<newline>'', 12)])) =
     Return ''ON''
       ((example_world no_click [])
          \<lparr>io := [Ser_write ''STATUS'', Sleep, Ser_readline], wall := 12,
           rendered := [St_subheader ''Bulb Status'']\<rparr>)"
    by (simp add: send_command_def readline_decode_def perform_def render_def strip_def
        isspace_def example_world_def)
  have h3: "send_command None ''STATUS''
     (render (St_subheader ''Bulb Status'') (example_world no_click [])) =
     Return ''Error: No serial connection''
       ((example_world no_click [])\<lparr>rendered := [St_subheader ''Bulb Status'']\<rparr>)"
    by (simp add: send_command_def render_def example_world_def)
  show ?thesis
    using status_display_empty [OF h1] status_display_empty [OF h2] status_display_empty [OF h3]
      h1 h2
    by (simp add: example_world_def row_def str_digits enumerate_eq_zip)
qed

text \<open>
  On a null handle the exchange for \<^verbatim>\<open>STATUS\<close> does not return the empty text, and
  the status display renders the five columns and one row.
\<close>

theorem status_display_null_handle_counterexample:
  "send_command None ''STATUS''
     (render (St_subheader ''Bulb Status'') (example_world no_click [])) =
     Return ''Error: No serial connection''
       ((example_world no_click [])\<lparr>rendered := [St_subheader ''Bulb Status'']\<rparr>) \<and>
   rendered (after (bulb_status None (example_world no_click []))) =
     [St_subheader ''Bulb Status'', St_columns 5,
      Col_write 0 ''BULD-BUTTON 0: Error: No serial connection'']"
  by (simp add: bulb_status_def send_command_def render_def example_world_def str_digits)

text \<open>
  C4, at an input on which the code departs from it. When the exchange for \<^verbatim>\<open>STATUS\<close>
  returns the six tokens "A,B,C,D,E,F", the status display renders the rows of the first five
  and then \<^verbatim>\<open>status_cols[5]\<close> raises \<^verbatim>\<open>IndexError\<close>: the sixth token is not
  dropped silently.
\<close>

theorem status_display_six_tokens:
  "bulb_status (Some Serial) (example_world no_click [(''A,B,C,D,E,F\<newline>'', 12)]) =
     Raise IndexError
       ((example_world no_click [])
          \<lparr>io := [Ser_write ''STATUS'', Sleep, Ser_readline], wall := 12,
           rendered :=
             [St_subheader ''Bulb Status'', St_columns 5,
              Col_write 0 ''BULD-BUTTON 0: A'',
              Col_write 1 ''BULD-BUTTON 1: B'',
              Col_write 2 ''BULD-BUTTON 2: C'',
              Col_write 3 ''BULD-BUTTON 3: D'',
              Col_write 4 ''BULD-BUTTON 4: E'']\<rparr>)"
  by (simp add: bulb_status_def send_command_def readline_decode_def perform_def render_def
      strip_def isspace_def example_world_def str.simps digit_def)


subsection \<open>The toggle buttons\<close>

text \<open>
  C9. When exactly the toggle button \<open>i\<close> of the five is clicked, the loop over the
  buttons makes one exchange, for the command "TOGGLE" followed by \<open>i\<close>, after rendering
  the buttons up to \<open>i\<close>. When the exchange returns, the loop renders "Control System
  Response: " followed by the text returned, as it is, then the remaining buttons, and returns.
  On an open handle the exchange writes exactly that command to the link, sleeps and reads one
  line. For button 2 the command is "TOGGLE2".
\<close>

theorem toggle_sends_command:
  assumes "i < 5"
    and "\<forall>j<5. clicked w (''Button '' @ str j) = (j = i)"
    and "send_command ser (''TOGGLE'' @ str i)
           (w\<lparr>rendered := rendered w @ map toggle_button (take (Suc i) [0, 1, 2, 3, 4])\<rparr>) =
         Return response w'"
  shows "toggle_buttons ser [0, 1, 2, 3, 4] w =
           Return ()
             (w'\<lparr>rendered := rendered w' @
                   St_write (''Control System Response: '' @ response) #
                   map toggle_button (drop (Suc i) [0, 1, 2, 3, 4])\<rparr>) \<and>
         (ser \<noteq> None \<longrightarrow>
            io w' = io w @ [Ser_write (''TOGGLE'' @ str i), Sleep, Ser_readline]) \<and>
         ''TOGGLE'' @ str 2 = ''TOGGLE2''"
proof -
  have c: "clicked w ''Button 0'' = (0 = i)" "clicked w ''Button 1'' = (1 = i)"
    "clicked w ''Button 2'' = (2 = i)" "clicked w ''Button 3'' = (3 = i)"
    "clicked w ''Button 4'' = (4 = i)"
    using assms(2) [rule_format, of 0] assms(2) [rule_format, of 1] assms(2) [rule_format, of 2]
      assms(2) [rule_format, of 3] assms(2) [rule_format, of 4]
    by (simp_all add: str_digits)
  have cl: "clicked w' = clicked w"
    using send_command_Return_frame [OF assms(3)] by simp
  have io: "ser \<noteq> None \<longrightarrow>
              io w' = io w @ [Ser_write (''TOGGLE'' @ str i), Sleep, Ser_readline]"
  proof
    assume "ser \<noteq> None"
    then obtain h where "ser = Some h" by auto
    then show "io w' = io w @ [Ser_write (''TOGGLE'' @ str i), Sleep, Ser_readline]"
      using send_command_Return_io [of h] assms(3) by fastforce
  qed
  from assms(1) consider "i = 0" | "i = 1" | "i = 2" | "i = 3" | "i = 4"
    by linarith
  then have "toggle_buttons ser [0, 1, 2, 3, 4] w =
           Return ()
             (w'\<lparr>rendered := rendered w' @
                   St_write (''Control System Response: '' @ response) #
                   map toggle_button (drop (Suc i) [0, 1, 2, 3, 4])\<rparr>)"
  proof cases
    case 1
    then show ?thesis
      using assms(3) c cl by (simp add: render_def str_digits toggle_button_def)
  next
    case 2
    then show ?thesis
      using assms(3) c cl by (simp add: render_def str_digits toggle_button_def)
  next
    case 3
    then show ?thesis
      using assms(3) c cl by (simp add: render_def str_digits toggle_button_def)
  next
    case 4
    then show ?thesis
      using assms(3) c cl by (simp add: render_def str_digits toggle_button_def)
  next
    case 5
    then show ?thesis
      using assms(3) c cl by (simp add: render_def str_digits toggle_button_def)
  qed
  with io show ?thesis by (simp add: str_digits)
qed

theorem toggle_sends_command_witness:
  "(2 :: nat) < 5 \<and>
   \<not> clicked (example_world (click ''Button 2'') [('' Bulb 2 toggled\<newline>'', 12)]) ''Button 0'' \<and>
   \<not> clicked (example_world (click ''Button 2'') [('' Bulb 2 toggled\<newline>'', 12)]) ''Button 1'' \<and>
   clicked (example_world (click ''Button 2'') [('' Bulb 2 toggled\<newline>'', 12)]) ''Button 2'' \<and>
   \<not> clicked (example_world (click ''Button 2'') [('' Bulb 2 toggled\<newline>'', 12)]) ''Button 3'' \<and>
   \<not> clicked (example_world (click ''Button 2'') [('' Bulb 2 toggled\<newline>'', 12)]) ''Button 4'' \<and>
   send_command (Some Serial) ''TOGGLE2''
     ((example_world (click ''Button 2'') [('' Bulb 2 toggled\<newline>'', 12)])
        \<lparr>rendered := [Col_button 0 ''Button 0'', Col_button 1 ''Button 1'',
                      Col_button 2 ''Button 2'']\<rparr>) =
     Return ''Bulb 2 toggled''
       ((example_world (click ''Button 2'') [])
          \<lparr>rendered := [Col_button 0 ''Button 0'', Col_button 1 ''Button 1'',
                        Col_button 2 ''Button 2''],
           io := [Ser_write ''TOGGLE2'', Sleep, Ser_readline], wall := 12\<rparr>) \<and>
   toggle_buttons (Some Serial) [0, 1, 2, 3, 4]
     (example_world (click ''Button 2'') [('' Bulb 2 toggled\<newline>'', 12)]) =
     Return ()
       ((example_world (click ''Button 2'') [])
          \<lparr>rendered := [Col_button 0 ''Button 0'', Col_button 1 ''Button 1'',
                        Col_button 2 ''Button 2'',
                        St_write ''Control System Response: Bulb 2 toggled'',
                        Col_button 3 ''Button 3'', Col_button 4 ''Button 4''],
           io := [Ser_write ''TOGGLE2'', Sleep, Ser_readline], wall := 12\<rparr>)"
proof -
  have h1: "(2 :: nat) < 5" by simp
  have s: "str j = ''2'' \<longleftrightarrow> j = 2" if "j < 5" for j
  proof -
    from that consider "j = 0" | "j = 1" | "j = 2" | "j = 3" | "j = 4" by linarith
    then show ?thesis by cases (simp_all add: str_digits)
  qed
  have h2: "\<forall>j<5. clicked (example_world (click ''Button 2'') [('' Bulb 2 toggled\<newline>'', 12)])
             (''Button '' @ str j) = (j = 2)"
    using s by (simp add: example_world_def click_def)
  have h3: "send_command (Some Serial) (''TOGGLE'' @ str 2)
     ((example_world (click ''Button 2'') [('' Bulb 2 toggled\<newline>'', 12)])
        \<lparr>rendered := rendered (example_world (click ''Button 2'') [('' Bulb 2 toggled\<newline>'', 12)]) @
                      map toggle_button (take (Suc 2) [0, 1, 2, 3, 4])\<rparr>) =
     Return ''Bulb 2 toggled''
       ((example_world (click ''Button 2'') [])
          \<lparr>rendered := [Col_button 0 ''Button 0'', Col_button 1 ''Button 1'',
                        Col_button 2 ''Button 2''],
           io := [Ser_write ''TOGGLE2'', Sleep, Ser_readline], wall := 12\<rparr>)"
    by (simp add: send_command_def readline_decode_def perform_def strip_def isspace_def
        example_world_def toggle_button_def str_digits)
  show ?thesis
    using toggle_sends_command [OF h1 h2 h3] h1 h3
    by (simp add: example_world_def toggle_button_def str_digits click_def)
qed

subsection \<open>The statistics\<close>




end
